theory Spec2Isabelle
  imports
    Main
    "HOL-Library.Sublist"
    "HOL-Library.Char_ord"
    "HOL-Library.List_Lexorder"
begin

section \<open>Python strings\<close>

text \<open>
  A Python \<open>str\<close> is a sequence of code points. The model takes \<^typ>\<open>string\<close>, whose
  characters are the code points below 256; \<open>str.isspace\<close> and \<open>str.lower\<close> are
  Python's on that range. Strings compare as Python compares them: by code point
  (\<open>Char_ord\<close>), lexicographically, a proper prefix first (\<open>List_Lexorder\<close>).
\<close>

abbreviation LF :: char where
  "LF \<equiv> CHR 0x0A"

abbreviation CR :: char where
  "CR \<equiv> CHR 0x0D"

definition isspace :: "char \<Rightarrow> bool" where
  "isspace c =
     (let n = (of_char c :: nat)
      in (9 \<le> n \<and> n \<le> 13) \<or> (28 \<le> n \<and> n \<le> 32) \<or> n = 133 \<or> n = 160)"

definition lower_char :: "char \<Rightarrow> char" where
  "lower_char c =
     (let n = (of_char c :: nat)
      in if (65 \<le> n \<and> n \<le> 90) \<or> (192 \<le> n \<and> n \<le> 222 \<and> n \<noteq> 215)
         then char_of (n + 32) else c)"

definition str_lower :: "string \<Rightarrow> string" where
  "str_lower s = map lower_char s"

definition str_startswith :: "string \<Rightarrow> string \<Rightarrow> bool" where
  "str_startswith s p = (take (length p) s = p)"

definition str_endswith :: "string \<Rightarrow> string \<Rightarrow> bool" where
  "str_endswith s p = (drop (length s - length p) s = p)"

text \<open>\<open>s.strip()\<close>: whitespace removed at both ends.\<close>

definition str_strip :: "string \<Rightarrow> string" where
  "str_strip s = rev (dropWhile isspace (rev (dropWhile isspace s)))"

text \<open>
  \<open>s.split(sep)\<close> for a one-character separator: a cut at every occurrence, empty
  pieces kept, so the result has one element more than \<open>s\<close> has separators.
\<close>

fun str_split :: "char \<Rightarrow> string \<Rightarrow> string list" where
  "str_split sep [] = [[]]"
| "str_split sep (c # cs) =
     (if c = sep then [] # str_split sep cs
      else (case str_split sep cs of
              [] \<Rightarrow> [[c]]
            | piece # pieces \<Rightarrow> (c # piece) # pieces))"

text \<open>\<open>sub in s\<close>: \<open>sub\<close> occurs in \<open>s\<close> as a contiguous run.\<close>

fun str_in :: "string \<Rightarrow> string \<Rightarrow> bool" where
  "str_in sub [] = (sub = [])"
| "str_in sub (c # cs) = (take (length sub) (c # cs) = sub \<or> str_in sub cs)"

section \<open>Exceptions\<close>

datatype exn =
  OSError
| UnicodeDecodeError
| IndexError
| JSONDecodeError

text \<open>\<open>xs[i]\<close> for \<open>i \<ge> 0\<close>: IndexError out of range.\<close>

definition subscript :: "'a list \<Rightarrow> nat \<Rightarrow> exn + 'a" where
  "subscript xs i = (if i < length xs then Inr (xs ! i) else Inl IndexError)"

section \<open>The file system\<close>

text \<open>
  What the program sees of the file system: \<open>os.listdir\<close>, \<open>os.path.isfile\<close>, and
  the text a file opened with \<open>open(path, 'r')\<close> delivers, or the exception that opening
  or decoding it raises. A file that fails is taken to fail before it yields a line.
\<close>

record filesystem =
  listdir :: "string \<Rightarrow> string list"
  isfile :: "string \<Rightarrow> bool"
  read_text :: "string \<Rightarrow> exn + string"

text \<open>\<open>os.path.join\<close> and \<open>os.path.basename\<close> of \<open>posixpath\<close>.\<close>

definition path_join :: "string \<Rightarrow> string \<Rightarrow> string" where
  "path_join a b =
     (if str_startswith b ''/'' then b
      else if a = [] \<or> str_endswith a ''/'' then a @ b
      else a @ ''/'' @ b)"

definition basename :: "string \<Rightarrow> string" where
  "basename p = rev (takeWhile (\<lambda>c. c \<noteq> CHR ''/'') (rev p))"

text \<open>
  Text mode with the default \<open>newline=None\<close>: \<open>\r\n\<close> and a lone \<open>\r\<close> are read
  as \<open>\n\<close>.
\<close>

fun universal_newlines :: "string \<Rightarrow> string" where
  "universal_newlines [] = []"
| "universal_newlines [c] = [if c = CR then LF else c]"
| "universal_newlines (c # d # cs) =
     (if c = CR \<and> d = LF then LF # universal_newlines cs
      else if c = CR then LF # universal_newlines (d # cs)
      else c # universal_newlines (d # cs))"

text \<open>\<open>for line in file\<close>: the lines in order, each with its \<open>\n\<close>, the last one maybe without.\<close>

fun readlines :: "string \<Rightarrow> string list" where
  "readlines [] = []"
| "readlines (c # cs) =
     (if c = LF then [c] # readlines cs
      else (case readlines cs of
              [] \<Rightarrow> [[c]]
            | line # lines \<Rightarrow> (c # line) # lines))"

section \<open>The application\<close>

text \<open>
  The fields of \<open>LinkOpenerApp\<close> the operations read and write: the two link lists with
  their folders, the items shown by each panel's \<open>QListWidget\<close>, the text of each panel's
  label, and the \<open>QMessageBox.critical\<close> dialogs shown so far, oldest first.
\<close>

datatype dialog = Critical string exn

record app =
  links1 :: "string list"
  links2 :: "string list"
  folder1 :: string
  folder2 :: string
  link_list1 :: "string list"
  link_list2 :: "string list"
  label1 :: string
  label2 :: string
  dialogs :: "dialog list"

datatype layout = Layout1 | Layout2

definition links_of :: "layout \<Rightarrow> app \<Rightarrow> string list" where
  "links_of layout self = (if layout = Layout1 then links1 self else links2 self)"

definition items_of :: "layout \<Rightarrow> app \<Rightarrow> string list" where
  "items_of layout self = (case layout of Layout1 \<Rightarrow> link_list1 self | Layout2 \<Rightarrow> link_list2 self)"

definition set_items :: "layout \<Rightarrow> string list \<Rightarrow> app \<Rightarrow> app" where
  "set_items layout items self =
     (case layout of
        Layout1 \<Rightarrow> self\<lparr>link_list1 := items\<rparr>
      | Layout2 \<Rightarrow> self\<lparr>link_list2 := items\<rparr>)"

definition setText :: "layout \<Rightarrow> string \<Rightarrow> app \<Rightarrow> app" where
  "setText layout text self =
     (case layout of
        Layout1 \<Rightarrow> self\<lparr>label1 := text\<rparr>
      | Layout2 \<Rightarrow> self\<lparr>label2 := text\<rparr>)"

subsection \<open>\<open>extract_url_from_shortcut\<close>\<close>

text \<open>
  The loop over the lines: at the first line that starts with \<open>URL=\<close> it returns
  \<open>line.strip().split('=')[1]\<close>; without such a line it falls through to \<open>None\<close>.
\<close>

fun scan_lines :: "string list \<Rightarrow> exn + string option" where
  "scan_lines [] = Inr None"
| "scan_lines (line # lines) =
     (if str_startswith line ''URL='' then
        (case subscript (str_split CHR ''='' (str_strip line)) 1 of
           Inl e \<Rightarrow> Inl e
         | Inr url \<Rightarrow> Inr (Some url))
      else scan_lines lines)"

text \<open>
  The \<open>try\<close> block, then the handler: any exception shows one dialog naming the file and
  the function returns \<open>None\<close>. The result is the returned value and the dialogs shown.
\<close>

definition extract_url_from_shortcut :: "filesystem \<Rightarrow> string \<Rightarrow> string option \<times> dialog list" where
  "extract_url_from_shortcut fs file_path =
     (case (case read_text fs file_path of
              Inl e \<Rightarrow> Inl e
            | Inr text \<Rightarrow> scan_lines (readlines (universal_newlines text))) of
        Inl e \<Rightarrow> (None, [Critical file_path e])
      | Inr result \<Rightarrow> (result, []))"

subsection \<open>\<open>update_link_list\<close>\<close>

definition update_link_list :: "layout \<Rightarrow> app \<Rightarrow> app" where
  "update_link_list layout self =
     set_items layout (if layout = Layout1 then links1 self else links2 self) self"

subsection \<open>\<open>import_links\<close>\<close>

text \<open>
  The loop over \<open>os.listdir(folder)\<close>, carrying the list \<open>links\<close> and the dialogs shown.
  \<open>if link:\<close> is false for \<open>None\<close> and for the empty string.
\<close>

fun import_loop ::
  "filesystem \<Rightarrow> string \<Rightarrow> string list \<Rightarrow> string list \<times> dialog list \<Rightarrow> string list \<times> dialog list" where
  "import_loop fs folder [] (links, shown) = (links, shown)"
| "import_loop fs folder (file # files) (links, shown) =
     (let file_path = path_join folder file
      in if isfile fs file_path \<and> str_endswith (str_lower file) ''.url'' then
           (case extract_url_from_shortcut fs file_path of
              (link, ds) \<Rightarrow>
                import_loop fs folder files
                  (case link of
                     None \<Rightarrow> links
                   | Some url \<Rightarrow> if url \<noteq> [] then links @ [url] else links,
                   shown @ ds))
         else import_loop fs folder files (links, shown))"

text \<open>\<open>sorted(set(links))\<close>.\<close>

definition sorted_set :: "string list \<Rightarrow> string list" where
  "sorted_set links = sort (remdups links)"

text \<open>
  \<open>folder\<close> is what \<open>QFileDialog.getExistingDirectory\<close> returned: the chosen path, or
  the empty string when the user cancelled. The \<open>label\<close> argument is the label of the
  panel \<open>layout\<close>: \<open>create_link_panel\<close> connects the button with both.
\<close>

definition import_links :: "filesystem \<Rightarrow> string \<Rightarrow> layout \<Rightarrow> app \<Rightarrow> app" where
  "import_links fs folder layout self =
     (if folder \<noteq> [] then
        (case import_loop fs folder (listdir fs folder) ([], []) of
           (collected, shown) \<Rightarrow>
             (let links = sorted_set collected;
                  self = self\<lparr>dialogs := dialogs self @ shown\<rparr>;
                  self = (if layout = Layout1
                          then self\<lparr>links1 := links, folder1 := folder\<rparr>
                          else self\<lparr>links2 := links, folder2 := folder\<rparr>);
                  self = update_link_list layout self
              in setText layout (''Folder: '' @ basename folder) self))
      else self)"

subsection \<open>\<open>filter_links\<close>\<close>

text \<open>The widget passed in is one of the two panels' lists; it ends up showing the matches.\<close>

definition filter_links :: "layout \<Rightarrow> string \<Rightarrow> app \<Rightarrow> app" where
  "filter_links link_list search_text self =
     (let search_text = str_lower search_text;
          links = (if link_list = Layout1 then links1 self else links2 self);
          filtered_links = filter (\<lambda>link. str_in search_text (str_lower link)) links
      in set_items link_list filtered_links self)"

subsection \<open>\<open>load_config\<close>, \<open>save_config\<close>\<close>

text \<open>
  The dictionary read from and written to \<open>config.json\<close>, at the shape \<open>save_config\<close>
  writes: each of the four keys is absent or holds a list of strings (\<open>links1\<close>, \<open>links2\<close>)
  or a string (\<open>folder1\<close>, \<open>folder2\<close>).
\<close>

record config =
  cfg_links1 :: "string list option"
  cfg_links2 :: "string list option"
  cfg_folder1 :: "string option"
  cfg_folder2 :: "string option"

text \<open>\<open>d.get(key, fallback)\<close>.\<close>

definition get :: "'a option \<Rightarrow> 'a \<Rightarrow> 'a" where
  "get entry fallback = (case entry of None \<Rightarrow> fallback | Some v \<Rightarrow> v)"

text \<open>
  The text of \<open>config.json\<close> as \<open>json.load\<close> sees it: text that is not JSON, or the text
  \<open>json.dump\<close> writes for a dictionary, which \<open>json.load\<close> reads back as that dictionary.
  The file itself is absent (\<open>os.path.exists\<close> is false) or holds such a text.
\<close>

datatype config_text = Malformed | Encodes config

definition json_load :: "config_text \<Rightarrow> exn + config" where
  "json_load text = (case text of Malformed \<Rightarrow> Inl JSONDecodeError | Encodes c \<Rightarrow> Inr c)"

definition json_dump :: "config \<Rightarrow> config_text" where
  "json_dump c = Encodes c"

type_synonym config_file = "config_text option"

text \<open>
  The result is the exception that leaves \<open>load_config\<close>, if any, and the application
  after the call.
\<close>

definition load_config :: "config_file \<Rightarrow> app \<Rightarrow> exn option \<times> app" where
  "load_config file self =
     (case file of
        None \<Rightarrow> (None, self)
      | Some text \<Rightarrow>
          (case json_load text of
             Inl e \<Rightarrow> (Some e, self)
           | Inr config \<Rightarrow>
               (None,
                self\<lparr>links1 := get (cfg_links1 config) [],
                     links2 := get (cfg_links2 config) [],
                     folder1 := get (cfg_folder1 config) [],
                     folder2 := get (cfg_folder2 config) []\<rparr>)))"

text \<open>The result is \<open>config.json\<close> after the call.\<close>

definition save_config :: "app \<Rightarrow> config_file" where
  "save_config self =
     (let config = \<lparr>cfg_links1 = Some (links1 self),
                    cfg_links2 = Some (links2 self),
                    cfg_folder1 = Some (folder1 self),
                    cfg_folder2 = Some (folder2 self)\<rparr>
      in Some (json_dump config))"

subsection \<open>\<open>__init__\<close>\<close>

text \<open>The fields as \<open>__init__\<close> sets them before it calls \<open>load_config\<close>.\<close>

definition fresh :: app where
  "fresh = \<lparr>links1 = [], links2 = [], folder1 = [], folder2 = [],
            link_list1 = [], link_list2 = [],
            label1 = ''Linklist 1'', label2 = ''Linklist 2'',
            dialogs = []\<rparr>"

definition init :: "config_file \<Rightarrow> exn option \<times> app" where
  "init file = load_config file fresh"

section \<open>Vocabulary of the properties\<close>

text \<open>
  A shortcut file of a folder is an entry that \<open>import_links\<close> hands to
  \<open>extract_url_from_shortcut\<close>: a regular file whose name, lower-cased, ends in \<open>.url\<close>.
\<close>

definition shortcut_file :: "filesystem \<Rightarrow> string \<Rightarrow> string \<Rightarrow> bool" where
  "shortcut_file fs folder file =
     (isfile fs (path_join folder file) \<and> str_endswith (str_lower file) ''.url'')"

text \<open>Whether opening and decoding the file succeeds.\<close>

definition readable :: "filesystem \<Rightarrow> string \<Rightarrow> string \<Rightarrow> bool" where
  "readable fs folder file =
     (case read_text fs (path_join folder file) of Inl e \<Rightarrow> False | Inr content \<Rightarrow> True)"

text \<open>The non-empty URL extracted from one file: a list of one element, or of none.\<close>

definition contributed :: "filesystem \<Rightarrow> string \<Rightarrow> string \<Rightarrow> string list" where
  "contributed fs folder file =
     (case fst (extract_url_from_shortcut fs (path_join folder file)) of
        None \<Rightarrow> []
      | Some url \<Rightarrow> if url = [] then [] else [url])"

text \<open>The dialog for one file: one naming the file when it cannot be read, none otherwise.\<close>

definition reported :: "filesystem \<Rightarrow> string \<Rightarrow> string \<Rightarrow> dialog list" where
  "reported fs folder file =
     (case read_text fs (path_join folder file) of
        Inl e \<Rightarrow> [Critical (path_join folder file) e]
      | Inr content \<Rightarrow> [])"

text \<open>
  The non-empty URLs extracted from the shortcut files of a folder, in the order of the
  listing, duplicates included.
\<close>

definition extracted_urls :: "filesystem \<Rightarrow> string \<Rightarrow> string list" where
  "extracted_urls fs folder =
     concat (map (contributed fs folder) (filter (shortcut_file fs folder) (listdir fs folder)))"

text \<open>The listing of every folder cut down to the names that end in \<open>.url\<close>, any case.\<close>

definition only_url_names :: "filesystem \<Rightarrow> filesystem" where
  "only_url_names fs =
     fs\<lparr>listdir := (\<lambda>folder. filter (\<lambda>file. str_endswith (str_lower file) ''.url'') (listdir fs folder))\<rparr>"

section \<open>Example inputs\<close>

text \<open>
  Folder \<open>/links\<close>: \<open>a.url\<close>, \<open>b.url\<close>, \<open>c.url\<close> and \<open>d.txt\<close>, two of the
  shortcuts with the same address. Folder \<open>/five\<close>: five shortcuts, the third one
  unreadable. \<open>/q.url\<close>: an address with a query string. \<open>/two.url\<close>: two \<open>URL=\<close>
  lines.
\<close>

definition shortcut_text :: "string \<Rightarrow> string" where
  "shortcut_text url = ''[InternetShortcut]'' @ [CR, LF] @ ''URL='' @ url @ [CR, LF]"

definition two_URL_lines :: string where
  "two_URL_lines =
     ''[InternetShortcut]'' @ [LF] @ ''URL=http://first.com'' @ [LF]
       @ ''URL=http://second.com'' @ [LF]"

definition example_fs :: filesystem where
  "example_fs =
     \<lparr>listdir = (\<lambda>folder.
        if folder = ''/links'' then [''a.url'', ''b.url'', ''c.url'', ''d.txt'']
        else if folder = ''/five'' then [''1.url'', ''2.URL'', ''3.url'', ''4.url'', ''5.url'']
        else []),
      isfile = (\<lambda>path. True),
      read_text = (\<lambda>path.
        if path = ''/links/a.url'' then Inr (shortcut_text ''http://b.com'')
        else if path = ''/links/b.url'' then Inr (shortcut_text ''http://a.com'')
        else if path = ''/links/c.url'' then Inr (shortcut_text ''http://a.com'')
        else if path = ''/links/d.txt'' then Inr (shortcut_text ''http://d.com'')
        else if path = ''/five/1.url'' then Inr (shortcut_text ''http://e.com'')
        else if path = ''/five/2.URL'' then Inr (shortcut_text ''http://d.com'')
        else if path = ''/five/3.url'' then Inl OSError
        else if path = ''/five/4.url'' then Inr (shortcut_text ''http://c.com'')
        else if path = ''/five/5.url'' then Inr (shortcut_text ''http://b.com'')
        else if path = ''/q.url'' then Inr (shortcut_text ''http://a.com/?id=7'')
        else if path = ''/two.url'' then Inr two_URL_lines
        else Inl OSError)\<rparr>"

text \<open>An application that already holds links in both slots.\<close>

definition example_app :: app where
  "example_app =
     fresh\<lparr>links1 := [''http://old.com''], folder1 := ''/old'',
           links2 := [''http://x.com'', ''http://y.com''], folder2 := ''/other''\<rparr>"

text \<open>A configuration whose first list is neither sorted nor free of duplicates.\<close>

definition unsorted_config :: config where
  "unsorted_config =
     \<lparr>cfg_links1 = Some [''http://b.com'', ''http://a.com'', ''http://a.com''],
      cfg_links2 = Some [],
      cfg_folder1 = Some ''/links'',
      cfg_folder2 = Some []\<rparr>"

section \<open>Facts about the string operations\<close>

lemma str_split_nonempty: "str_split sep s \<noteq> []"
  by (induction s) (auto split: list.splits)

text \<open>A line that starts with \<open>URL=\<close> still does after \<open>strip\<close>.\<close>

lemma str_strip_URL:
  assumes "str_startswith line ''URL=''"
  shows "\<exists>rest. str_strip line = ''URL='' @ rest"
proof -
  define r where "r = drop (length ''URL='') line"
  from assms have "take (length ''URL='') line = ''URL=''"
    unfolding str_startswith_def .
  then have l: "line = ''URL='' @ r"
    unfolding r_def by (metis append_take_drop_id)
  have front: "dropWhile isspace line = line"
    unfolding l by (simp add: isspace_def)
  have "rev line = rev r @ ''=LRU''"
    unfolding l by simp
  then have "\<exists>ys. dropWhile isspace (rev line) = ys @ ''=LRU''"
    by (simp add: dropWhile_append isspace_def)
  then obtain ys where "dropWhile isspace (rev line) = ys @ ''=LRU''" ..
  then have "str_strip line = ''URL='' @ rev ys"
    by (simp add: str_strip_def front)
  then show ?thesis ..
qed

text \<open>So the subscript \<open>[1]\<close> is in range on such a line: no IndexError.\<close>

lemma field_of_URL_line:
  assumes "str_startswith line ''URL=''"
  shows "\<exists>url. subscript (str_split CHR ''='' (str_strip line)) 1 = Inr url"
proof -
  from str_strip_URL [OF assms] obtain rest where "str_strip line = ''URL='' @ rest" ..
  moreover obtain p ps where "str_split CHR ''='' rest = p # ps"
    using str_split_nonempty by (cases "str_split CHR ''='' rest") auto
  ultimately show ?thesis
    by (simp add: subscript_def)
qed

lemma scan_lines_no_exception: "scan_lines lines \<noteq> Inl e"
proof (induction lines)
  case Nil
  show ?case by simp
next
  case (Cons line lines)
  show ?case
  proof (cases "str_startswith line ''URL=''")
    case True
    from field_of_URL_line [OF True] obtain url
      where "subscript (str_split CHR ''='' (str_strip line)) 1 = Inr url" ..
    with True show ?thesis by simp
  next
    case False
    with Cons.IH show ?thesis by simp
  qed
qed

lemma scan_lines_first:
  assumes "\<forall>b \<in> set before. \<not> str_startswith b ''URL=''"
    and "str_startswith line ''URL=''"
  shows "scan_lines (before @ line # after) = Inr (Some (str_split CHR ''='' (str_strip line) ! 1))
    \<and> 1 < length (str_split CHR ''='' (str_strip line))"
  using assms
proof (induction before)
  case Nil
  from field_of_URL_line [OF Nil(2)] obtain url
    where "subscript (str_split CHR ''='' (str_strip line)) 1 = Inr url" ..
  with Nil(2) show ?case
    by (auto simp: subscript_def split: if_splits)
next
  case (Cons b before)
  then show ?case by simp
qed

text \<open>Python's \<open>in\<close> on strings is the contiguous-sublist relation.\<close>

lemma str_in_sublist: "str_in sub s = sublist sub s"
proof (induction s)
  case Nil
  show ?case by simp
next
  case (Cons c cs)
  have "take (length sub) (c # cs) = sub \<longleftrightarrow> prefix sub (c # cs)"
    by (metis append_take_drop_id append_eq_conv_conj prefix_def)
  with Cons show ?case
    by (simp add: sublist_Cons_right)
qed

lemma sorted_set_props:
  "sorted (sorted_set xs)" "distinct (sorted_set xs)" "set (sorted_set xs) = set xs"
  "length (sorted_set xs) = card (set xs)"
  by (simp_all add: sorted_set_def length_remdups_card_conv)

section \<open>Facts about the import loop\<close>

lemma extract_dialogs:
  "snd (extract_url_from_shortcut fs p) =
     (case read_text fs p of Inl e \<Rightarrow> [Critical p e] | Inr content \<Rightarrow> [])"
proof (cases "read_text fs p")
  case (Inl e)
  then show ?thesis by (simp add: extract_url_from_shortcut_def)
next
  case (Inr content)
  obtain r where "scan_lines (readlines (universal_newlines content)) = Inr r"
    using scan_lines_no_exception
    by (cases "scan_lines (readlines (universal_newlines content))") auto
  with Inr show ?thesis by (simp add: extract_url_from_shortcut_def)
qed

text \<open>One turn of the loop, in the vocabulary of the properties.\<close>

lemma import_loop_step:
  "import_loop fs folder (name # names) (links, shown) =
     (if shortcut_file fs folder name
      then import_loop fs folder names
             (links @ contributed fs folder name, shown @ reported fs folder name)
      else import_loop fs folder names (links, shown))"
proof (cases "shortcut_file fs folder name")
  case False
  then show ?thesis by (auto simp: shortcut_file_def Let_def)
next
  case True
  obtain link ds where e: "extract_url_from_shortcut fs (path_join folder name) = (link, ds)"
    by (cases "extract_url_from_shortcut fs (path_join folder name)")
  have ds: "ds = reported fs folder name"
    using extract_dialogs [of fs "path_join folder name"] e by (simp add: reported_def)
  have link: "(case link of None \<Rightarrow> links | Some url \<Rightarrow> if url \<noteq> [] then links @ [url] else links)
     = links @ contributed fs folder name"
    using e by (simp add: contributed_def split: option.splits)
  from True e ds link show ?thesis
    by (simp add: shortcut_file_def Let_def)
qed

lemma import_loop_eq:
  "import_loop fs folder names (links, shown) =
     (links @ concat (map (contributed fs folder) (filter (shortcut_file fs folder) names)),
      shown @ concat (map (reported fs folder) (filter (shortcut_file fs folder) names)))"
proof (induction names arbitrary: links shown)
  case Nil
  show ?case by simp
next
  case (Cons name names)
  show ?case
    unfolding import_loop_step by (simp add: Cons.IH)
qed

lemma import_links_links:
  assumes "folder \<noteq> []"
  shows "links_of layout (import_links fs folder layout st) = sorted_set (extracted_urls fs folder)"
  using assms
  by (cases layout)
     (simp_all add: import_links_def import_loop_eq links_of_def update_link_list_def
        set_items_def setText_def Let_def extracted_urls_def)

lemma import_links_dialogs:
  assumes "folder \<noteq> []"
  shows "dialogs (import_links fs folder layout st) =
    dialogs st @ concat (map (reported fs folder) (filter (shortcut_file fs folder) (listdir fs folder)))"
  using assms
  by (cases layout)
     (simp_all add: import_links_def import_loop_eq update_link_list_def
        set_items_def setText_def Let_def)

lemma unreadable_contributes_nothing:
  "\<not> readable fs folder file \<Longrightarrow> contributed fs folder file = []"
  by (auto simp: readable_def contributed_def extract_url_from_shortcut_def split: sum.splits)

lemma concat_map_filter_empty:
  "(\<And>x. \<not> P x \<Longrightarrow> f x = []) \<Longrightarrow>
   concat (map f (filter Q xs)) = concat (map f (filter (\<lambda>x. Q x \<and> P x) xs))"
  by (induction xs) auto

lemma length_reported:
  "length (concat (map (reported fs folder) (filter Q xs))) =
   length (filter (\<lambda>file. Q file \<and> \<not> readable fs folder file) xs)"
  by (induction xs) (auto simp: reported_def readable_def split: sum.splits)

lemma only_url_names_urls: "extracted_urls (only_url_names fs) folder = extracted_urls fs folder"
proof -
  have c: "contributed (only_url_names fs) folder = contributed fs folder"
    by (rule ext) (simp add: contributed_def extract_url_from_shortcut_def only_url_names_def)
  have s: "shortcut_file (only_url_names fs) folder = shortcut_file fs folder"
    by (rule ext) (simp add: shortcut_file_def only_url_names_def)
  have "filter (shortcut_file fs folder)
          (filter (\<lambda>file. str_endswith (str_lower file) ''.url'') (listdir fs folder))
        = filter (shortcut_file fs folder) (listdir fs folder)"
    by (auto simp: shortcut_file_def intro: filter_cong)
  then show ?thesis
    by (simp add: extracted_urls_def c s) (simp add: only_url_names_def)
qed

section \<open>The claims\<close>

text \<open>
  C1. For every file content with a line that begins with \<open>URL=\<close>, ShortcutParse returns
  the entire text after the first \<open>=\<close> of the first such line, stripped; in particular a URL
  that itself contains \<open>=\<close> is returned whole. The code does not: \<open>split('=')[1]\<close> is
  the piece between the first and the second \<open>=\<close>, so from the line
  \<open>URL=http://a.com/?id=7\<close> it returns \<open>http://a.com/?id\<close>, without a dialog.
\<close>

theorem extract_url_cut_at_second_equals:
  "read_text example_fs ''/q.url'' = Inr (shortcut_text ''http://a.com/?id=7'')
   \<and> extract_url_from_shortcut example_fs ''/q.url'' = (Some ''http://a.com/?id'', [])"
  by code_simp

text \<open>
  C9. When the folder picker was cancelled and the folder path is empty, Import is a no-op:
  the application is as it was, both slots and the dialogs shown included.
\<close>

theorem import_cancelled_no_op:
  "import_links fs [] layout st = st"
  by (simp add: import_links_def)

text \<open>
  C10. When \<open>config.json\<close> exists and is not valid JSON, LoadConfig raises (the decoder's
  exception leaves \<open>load_config\<close>) and the application is left as it was before the call.
\<close>

theorem load_config_malformed_raises:
  "load_config (Some Malformed) st = (Some JSONDecodeError, st)"
  by (simp add: load_config_def json_load_def)

text \<open>
  C7. When the file has two or more lines that begin with \<open>URL=\<close>, ShortcutParse returns
  the URL of the first such line only. Whatever the lines after it are, the result is
  \<open>line.strip().split('=')[1]\<close> of that first line, the subscript is in range, and no
  dialog is shown.
\<close>

theorem first_URL_line_wins:
  assumes "read_text fs p = Inr content"
    and "readlines (universal_newlines content) = before @ line # after"
    and "\<forall>b \<in> set before. \<not> str_startswith b ''URL=''"
    and "str_startswith line ''URL=''"
  shows "extract_url_from_shortcut fs p = (Some (str_split CHR ''='' (str_strip line) ! 1), [])
    \<and> 1 < length (str_split CHR ''='' (str_strip line))"
  using scan_lines_first [OF assms(3,4), of after] assms(1,2)
  by (simp add: extract_url_from_shortcut_def)

theorem first_URL_line_wins_witness:
  "read_text example_fs ''/two.url'' = Inr two_URL_lines
   \<and> readlines (universal_newlines two_URL_lines) =
       [''[InternetShortcut]'' @ [LF]] @ (''URL=http://first.com'' @ [LF])
         # [''URL=http://second.com'' @ [LF]]
   \<and> str_startswith (''URL=http://second.com'' @ [LF]) ''URL=''
   \<and> extract_url_from_shortcut example_fs ''/two.url'' = (Some ''http://first.com'', [])"
proof -
  have r: "read_text example_fs ''/two.url'' = Inr two_URL_lines"
    by code_simp
  have l: "readlines (universal_newlines two_URL_lines) =
       [''[InternetShortcut]'' @ [LF]] @ (''URL=http://first.com'' @ [LF])
         # [''URL=http://second.com'' @ [LF]]"
    by code_simp
  have b: "\<forall>b \<in> set [''[InternetShortcut]'' @ [LF]]. \<not> str_startswith b ''URL=''"
    by (simp add: str_startswith_def)
  have s: "str_startswith (''URL=http://first.com'' @ [LF]) ''URL=''"
    by (simp add: str_startswith_def)
  have s2: "str_startswith (''URL=http://second.com'' @ [LF]) ''URL=''"
    by (simp add: str_startswith_def)
  have v: "str_split CHR ''='' (str_strip (''URL=http://first.com'' @ [LF])) ! 1 = ''http://first.com''"
    by code_simp
  from first_URL_line_wins [OF r l b s] r l s2 v show ?thesis
    by simp
qed

text \<open>
  C5. Filter does not change the slots: both \<open>links\<close> lists and both folders are as
  before. What the panel's list shows afterwards is exactly the links of the slot that contain
  the search text as a contiguous run, both lower-cased, in the order of the slot's list (a
  subsequence of it); for the empty search text it is the whole list.
\<close>

theorem filter_links_pure_subsequence:
  "links1 (filter_links w s st) = links1 st
   \<and> links2 (filter_links w s st) = links2 st
   \<and> folder1 (filter_links w s st) = folder1 st
   \<and> folder2 (filter_links w s st) = folder2 st
   \<and> items_of w (filter_links w s st) =
       filter (\<lambda>link. sublist (str_lower s) (str_lower link)) (links_of w st)
   \<and> subseq (items_of w (filter_links w s st)) (links_of w st)
   \<and> items_of w (filter_links w [] st) = links_of w st"
  by (cases w)
     (simp_all add: filter_links_def set_items_def items_of_def links_of_def Let_def
        str_in_sublist str_lower_def)

text \<open>
  C6. SaveConfig, then LoadConfig in a fresh instance: no exception, and both \<open>links\<close>
  lists and both folders are those that were saved. Without a backing file the fresh instance
  keeps its empty lists and empty folders; a key missing from the file gives the empty list
  or the empty string, whatever the slot held.
\<close>

theorem save_load_round_trip:
  "fst (init (save_config st)) = None
   \<and> links1 (snd (init (save_config st))) = links1 st
   \<and> links2 (snd (init (save_config st))) = links2 st
   \<and> folder1 (snd (init (save_config st))) = folder1 st
   \<and> folder2 (snd (init (save_config st))) = folder2 st
   \<and> init None = (None, fresh)
   \<and> links1 fresh = [] \<and> links2 fresh = [] \<and> folder1 fresh = [] \<and> folder2 fresh = []
   \<and> links1 (snd (load_config (Some (json_dump (c\<lparr>cfg_links1 := None\<rparr>))) st)) = []
   \<and> links2 (snd (load_config (Some (json_dump (c\<lparr>cfg_links2 := None\<rparr>))) st)) = []
   \<and> folder1 (snd (load_config (Some (json_dump (c\<lparr>cfg_folder1 := None\<rparr>))) st)) = []
   \<and> folder2 (snd (load_config (Some (json_dump (c\<lparr>cfg_folder2 := None\<rparr>))) st)) = []"
  by (simp add: init_def load_config_def save_config_def json_load_def json_dump_def
      get_def fresh_def)

text \<open>
  C8. Import into one slot leaves the other slot's \<open>links\<close> and folder as they were.
  When a folder was chosen, the target slot's \<open>links\<close> after the import do not depend on
  what the slot held before (a replacement, not a merge), and its folder is the chosen one.
\<close>

theorem import_touches_target_slot_only:
  "links2 (import_links fs folder Layout1 st) = links2 st
   \<and> folder2 (import_links fs folder Layout1 st) = folder2 st
   \<and> links1 (import_links fs folder Layout2 st) = links1 st
   \<and> folder1 (import_links fs folder Layout2 st) = folder1 st
   \<and> (folder \<noteq> [] \<longrightarrow>
        links1 (import_links fs folder Layout1 st) = links1 (import_links fs folder Layout1 st')
        \<and> folder1 (import_links fs folder Layout1 st) = folder
        \<and> links2 (import_links fs folder Layout2 st) = links2 (import_links fs folder Layout2 st')
        \<and> folder2 (import_links fs folder Layout2 st) = folder)"
  by (simp add: import_links_def import_loop_eq update_link_list_def set_items_def
      setText_def Let_def)

theorem import_touches_target_slot_only_witness:
  "''/links'' \<noteq> []
   \<and> links1 example_app = [''http://old.com'']
   \<and> links1 (import_links example_fs ''/links'' Layout1 example_app) = [''http://a.com'', ''http://b.com'']
   \<and> links1 (import_links example_fs ''/links'' Layout1 fresh) = [''http://a.com'', ''http://b.com'']
   \<and> folder1 (import_links example_fs ''/links'' Layout1 example_app) = ''/links''
   \<and> links2 (import_links example_fs ''/links'' Layout1 example_app) = [''http://x.com'', ''http://y.com'']
   \<and> folder2 (import_links example_fs ''/links'' Layout1 example_app) = ''/other''"
proof -
  have a: "links1 (import_links example_fs ''/links'' Layout1 fresh) = [''http://a.com'', ''http://b.com'']"
    by code_simp
  have b: "links2 example_app = [''http://x.com'', ''http://y.com'']"
    "folder2 example_app = ''/other''" "links1 example_app = [''http://old.com'']"
    by (simp_all add: example_app_def)
  from import_touches_target_slot_only [of example_fs "''/links''" example_app fresh] a b
  show ?thesis by simp
qed

text \<open>
  C3. For a chosen folder, Import leaves in the target slot exactly the set of the non-empty
  URLs extracted from the folder's shortcut files, as a list in ascending order (by code
  point, so case-sensitive) without duplicates, whose length is the number of distinct URLs.
  Entries whose names do not end in \<open>.url\<close>, in any case, contribute nothing: the result
  is the same with them removed from the listing.
\<close>

theorem import_sorted_distinct_urls:
  assumes "folder \<noteq> []"
  shows "set (links_of layout (import_links fs folder layout st)) = set (extracted_urls fs folder)
    \<and> sorted (links_of layout (import_links fs folder layout st))
    \<and> distinct (links_of layout (import_links fs folder layout st))
    \<and> length (links_of layout (import_links fs folder layout st)) = card (set (extracted_urls fs folder))
    \<and> links_of layout (import_links (only_url_names fs) folder layout st) =
        links_of layout (import_links fs folder layout st)"
  by (simp add: import_links_links [OF assms] sorted_set_props only_url_names_urls)

theorem import_sorted_distinct_urls_witness:
  "''/links'' \<noteq> []
   \<and> listdir example_fs ''/links'' = [''a.url'', ''b.url'', ''c.url'', ''d.txt'']
   \<and> extracted_urls example_fs ''/links'' = [''http://b.com'', ''http://a.com'', ''http://a.com'']
   \<and> links_of Layout1 (import_links example_fs ''/links'' Layout1 fresh) =
        [''http://a.com'', ''http://b.com'']
   \<and> card (set (extracted_urls example_fs ''/links'')) = 2"
proof -
  have n: "''/links'' \<noteq> []"
    by simp
  have l: "listdir example_fs ''/links'' = [''a.url'', ''b.url'', ''c.url'', ''d.txt'']"
    by code_simp
  have u: "extracted_urls example_fs ''/links'' = [''http://b.com'', ''http://a.com'', ''http://a.com'']"
    by code_simp
  have v: "links_of Layout1 (import_links example_fs ''/links'' Layout1 fresh) =
        [''http://a.com'', ''http://b.com'']"
    by code_simp
  from import_sorted_distinct_urls [OF n, of Layout1 example_fs fresh] l u v show ?thesis
    by simp
qed

text \<open>
  C4. For a chosen folder, Import shows one dialog for each shortcut file that cannot be
  read, naming that file, in the order of the listing, and none for any other file; so the
  number of dialogs it adds is the number of unreadable shortcut files. The links it leaves
  are those of the readable shortcut files, all of them: an unreadable file contributes
  none and does not stop the loop.
\<close>

theorem import_reports_unreadable_and_continues:
  assumes "folder \<noteq> []"
  shows "dialogs (import_links fs folder layout st) =
      dialogs st @ concat (map (reported fs folder)
        (filter (shortcut_file fs folder) (listdir fs folder)))
    \<and> length (dialogs (import_links fs folder layout st)) =
      length (dialogs st) + length (filter
        (\<lambda>file. shortcut_file fs folder file \<and> \<not> readable fs folder file) (listdir fs folder))
    \<and> links_of layout (import_links fs folder layout st) =
      sorted_set (concat (map (contributed fs folder)
        (filter (\<lambda>file. shortcut_file fs folder file \<and> readable fs folder file)
           (listdir fs folder))))"
proof -
  have "extracted_urls fs folder =
      concat (map (contributed fs folder)
        (filter (\<lambda>file. shortcut_file fs folder file \<and> readable fs folder file)
           (listdir fs folder)))"
    unfolding extracted_urls_def
    by (rule concat_map_filter_empty) (rule unreadable_contributes_nothing)
  then show ?thesis
    by (simp add: import_links_links [OF assms] import_links_dialogs [OF assms] length_reported)
qed

theorem import_reports_unreadable_and_continues_witness:
  "''/five'' \<noteq> []
   \<and> listdir example_fs ''/five'' = [''1.url'', ''2.URL'', ''3.url'', ''4.url'', ''5.url'']
   \<and> filter (\<lambda>file. shortcut_file example_fs ''/five'' file \<and> \<not> readable example_fs ''/five'' file)
        (listdir example_fs ''/five'') = [''3.url'']
   \<and> dialogs (import_links example_fs ''/five'' Layout2 example_app) = [Critical ''/five/3.url'' OSError]
   \<and> length (dialogs (import_links example_fs ''/five'' Layout2 example_app)) = 1
   \<and> links_of Layout2 (import_links example_fs ''/five'' Layout2 example_app) =
        [''http://b.com'', ''http://c.com'', ''http://d.com'', ''http://e.com'']"
proof -
  have n: "''/five'' \<noteq> []"
    by simp
  have l: "listdir example_fs ''/five'' = [''1.url'', ''2.URL'', ''3.url'', ''4.url'', ''5.url'']"
    by code_simp
  have d: "dialogs example_app = []"
    by (simp add: example_app_def fresh_def)
  have f: "filter (\<lambda>file. shortcut_file example_fs ''/five'' file \<and> \<not> readable example_fs ''/five'' file)
        (listdir example_fs ''/five'') = [''3.url'']"
    by code_simp
  have r: "concat (map (reported example_fs ''/five'')
        (filter (shortcut_file example_fs ''/five'') (listdir example_fs ''/five'')))
      = [Critical ''/five/3.url'' OSError]"
    by code_simp
  have c: "sorted_set (concat (map (contributed example_fs ''/five'')
        (filter (\<lambda>file. shortcut_file example_fs ''/five'' file \<and> readable example_fs ''/five'' file)
           (listdir example_fs ''/five''))))
      = [''http://b.com'', ''http://c.com'', ''http://d.com'', ''http://e.com'']"
    by code_simp
  from import_reports_unreadable_and_continues [OF n, of example_fs Layout2 example_app]
  have "dialogs (import_links example_fs ''/five'' Layout2 example_app) = [Critical ''/five/3.url'' OSError]
   \<and> length (dialogs (import_links example_fs ''/five'' Layout2 example_app)) = 1
   \<and> links_of Layout2 (import_links example_fs ''/five'' Layout2 example_app) =
        [''http://b.com'', ''http://c.com'', ''http://d.com'', ''http://e.com'']"
    unfolding d f r c by simp
  with n l f show ?thesis
    by simp
qed

text \<open>
  C2. The claim: after every operation that changes it, Import and LoadConfig included, a
  slot's \<open>links\<close> is free of duplicates and in ascending order, also when restored from an
  arbitrary configuration file. LoadConfig stores what the file holds: from a file whose
  first list is \<open>b, a, a\<close> the first slot holds \<open>b, a, a\<close>.
\<close>

theorem load_config_keeps_unsorted_list:
  "\<not> (sorted (links1 (snd (init (Some (json_dump unsorted_config)))))
      \<and> distinct (links1 (snd (init (Some (json_dump unsorted_config))))))"
  by (simp add: init_def load_config_def json_load_def json_dump_def unsorted_config_def get_def)

text \<open>
  C2, as the code has it. After an Import with a chosen folder, the target slot's \<open>links\<close>
  is in ascending order and free of duplicates. LoadConfig neither sorts nor removes
  duplicates: each slot's \<open>links\<close> is the list stored in the file, or empty when the key
  is missing.
\<close>

theorem import_sorts_load_config_restores_verbatim:
  "(folder \<noteq> [] \<longrightarrow>
      sorted (links_of layout (import_links fs folder layout st))
      \<and> distinct (links_of layout (import_links fs folder layout st)))
   \<and> fst (load_config (Some (json_dump c)) st) = None
   \<and> links1 (snd (load_config (Some (json_dump c)) st)) = get (cfg_links1 c) []
   \<and> links2 (snd (load_config (Some (json_dump c)) st)) = get (cfg_links2 c) []"
  by (simp add: import_links_links sorted_set_props load_config_def json_load_def json_dump_def)

theorem import_sorts_load_config_restores_verbatim_witness:
  "''/five'' \<noteq> []
   \<and> links_of Layout1 (import_links example_fs ''/five'' Layout1 fresh) =
        [''http://b.com'', ''http://c.com'', ''http://d.com'', ''http://e.com'']
   \<and> sorted (links_of Layout1 (import_links example_fs ''/five'' Layout1 fresh))
   \<and> distinct (links_of Layout1 (import_links example_fs ''/five'' Layout1 fresh))
   \<and> links1 (snd (load_config (Some (json_dump unsorted_config)) fresh)) =
        [''http://b.com'', ''http://a.com'', ''http://a.com'']"
proof -
  have v: "links_of Layout1 (import_links example_fs ''/five'' Layout1 fresh) =
        [''http://b.com'', ''http://c.com'', ''http://d.com'', ''http://e.com'']"
    by code_simp
  have g: "get (cfg_links1 unsorted_config) [] = [''http://b.com'', ''http://a.com'', ''http://a.com'']"
    by (simp add: get_def unsorted_config_def)
  from import_sorts_load_config_restores_verbatim
         [of "''/five''" Layout1 example_fs fresh unsorted_config] v g
  show ?thesis by simp
qed

end
